theory Spec2Isabelle
  imports Main "HOL-Library.Word"
begin

unbundle bit_operations_syntax

section \<open>Platform constants and devices\<close>

type_synonym u8 = "8 word"
type_synonym u32 = "32 word"

text \<open>
  The headers \<^verbatim>\<open>rboot.h\<close> and \<^verbatim>\<open>rboot-private.h\<close> are not among the sources, so the
  macros they define and the function \<^verbatim>\<open>default_config\<close> (of \<^verbatim>\<open>rboot.c\<close>) are
  parameters of the model. \<open>CFG_RESERVED\<close> is the size of the reserved tail of
  \<^verbatim>\<open>rboot_config\<close>; \<open>default_config P flashsize\<close> is the object representation of the
  structure that \<^verbatim>\<open>default_config(&romconf, flashsize)\<close> leaves in \<^verbatim>\<open>romconf\<close>.
\<close>

record platform =
  SECTOR_SIZE :: nat
  MAX_ROMS :: nat
  BOOT_CONFIG_SECTOR :: nat
  RBOOT_RTC_ADDR :: nat
  CFG_RESERVED :: nat
  default_config :: "u32 \<Rightarrow> u8 list"

text \<open>\<^verbatim>\<open>#define OTA_BUFFER_SIZE 4096\<close> (rboot-ota.h).\<close>

definition OTA_BUFFER_SIZE :: nat where
  "OTA_BUFFER_SIZE = 4096"

text \<open>\<^verbatim>\<open>#define FACTORY_RESET_MAGIC 0x1AC3F5E7\<close> and the flag's address (rboot-new.c).\<close>

definition FACTORY_RESET_MAGIC :: u32 where
  "FACTORY_RESET_MAGIC = 0x1AC3F5E7"

definition FACTORY_RESET_FLAG_ADDR :: "platform \<Rightarrow> nat" where
  "FACTORY_RESET_FLAG_ADDR P = RBOOT_RTC_ADDR P + 128"

subsection \<open>Result codes, states and the session handle (rboot-ota.h)\<close>

datatype ota_result_t =
    OTA_OK
  | OTA_ERR_INVALID_ARGS
  | OTA_ERR_NO_MEM
  | OTA_ERR_FLASH
  | OTA_ERR_INVALID_IMAGE
  | OTA_ERR_TIMEOUT
  | OTA_ERR_VERIFY
  | OTA_ERR_WRITE
  | OTA_ERR_ERASE
  | OTA_ERR_IN_PROGRESS
  | OTA_ERR_NO_UPDATE

datatype ota_state_t =
    OTA_STATE_READY
  | OTA_STATE_STARTED
  | OTA_STATE_WRITING
  | OTA_STATE_VERIFYING
  | OTA_STATE_COMPLETE
  | OTA_STATE_ERROR

text \<open>
  The pointer \<^verbatim>\<open>buffer\<close> only ever holds NULL or the address of the static array
  \<^verbatim>\<open>ota_buffer\<close>.
\<close>

datatype buffer_ptr = NULL_BUFFER | OTA_BUFFER

record ota_handle_t =
  target_addr :: u32
  write_offset :: u32
  total_size :: u32
  written_size :: u32
  buffer :: buffer_ptr
  buffer_size :: u32
  state :: ota_state_t
  target_rom :: u8

text \<open>\<^verbatim>\<open>memset(handle, 0, sizeof(ota_handle_t))\<close>.\<close>

definition zeroed_handle :: ota_handle_t where
  "zeroed_handle =
     \<lparr>target_addr = 0, write_offset = 0, total_size = 0, written_size = 0,
      buffer = NULL_BUFFER, buffer_size = 0, state = OTA_STATE_READY, target_rom = 0\<rparr>"

subsection \<open>The machine: flash, scratch memory, indicator, handles\<close>

datatype flash_op = Erase nat | Program u32 "u8 list"

text \<open>
  \<open>flash\<close> is the content of the flash device. The three fault predicates say which
  calls of the flash primitives return a non-zero status (a failing call leaves the
  flash as it was). \<open>trace\<close> records every erase and program call, in order.
  \<open>rtc\<close> is the persistent scratch memory, addressed in words as by
  \<^verbatim>\<open>system_rtc_mem\<close>; \<open>led\<close> is whether the status indicator is lit.
  \<open>handles\<close> is the store of caller-owned \<^verbatim>\<open>ota_handle_t\<close> objects, by address, and
  \<open>current_ota\<close> the static pointer of rboot-ota.c (\<open>None\<close> is NULL).
\<close>

record world =
  flash :: "u32 \<Rightarrow> u8"
  read_fault :: "u32 \<Rightarrow> bool"
  erase_fault :: "nat \<Rightarrow> bool"
  write_fault :: "u32 \<Rightarrow> bool"
  trace :: "flash_op list"
  rtc :: "nat \<Rightarrow> u32"
  led :: bool
  current_ota :: "nat option"
  handles :: "nat \<Rightarrow> ota_handle_t"

definition put_handle :: "nat \<Rightarrow> ota_handle_t \<Rightarrow> world \<Rightarrow> world" where
  "put_handle p h w = w\<lparr>handles := (handles w)(p := h)\<rparr>"

text \<open>
  \<^verbatim>\<open>SPIRead(addr, outptr, len)\<close>: \<open>None\<close> is a non-zero status, otherwise the \<open>len\<close>
  bytes starting at \<open>addr\<close>.
\<close>

definition SPIRead :: "u32 \<Rightarrow> nat \<Rightarrow> world \<Rightarrow> u8 list option" where
  "SPIRead addr len w =
     (if read_fault w addr then None
      else Some (map (\<lambda>i. flash w (addr + of_nat i)) [0..<len]))"

text \<open>\<^verbatim>\<open>SPIEraseSector(sector)\<close>: every byte of the sector becomes 0xFF.\<close>

definition SPIEraseSector :: "platform \<Rightarrow> nat \<Rightarrow> world \<Rightarrow> u32 \<times> world" where
  "SPIEraseSector P sector w =
     (let w' = w\<lparr>trace := trace w @ [Erase sector]\<rparr>
      in if erase_fault w sector then (1, w')
         else (0, w'\<lparr>flash := (\<lambda>a. if unat a div SECTOR_SIZE P = sector then 0xFF
                                     else flash w a)\<rparr>))"

text \<open>
  \<^verbatim>\<open>SPIWrite(addr, inptr, len)\<close>: NOR programming can only clear bits, so each byte
  becomes the conjunction of its old value and the byte written.
\<close>

definition SPIWrite :: "u32 \<Rightarrow> u8 list \<Rightarrow> world \<Rightarrow> u32 \<times> world" where
  "SPIWrite addr buf w =
     (let w' = w\<lparr>trace := trace w @ [Program addr buf]\<rparr>
      in if write_fault w addr then (1, w')
         else (0, w'\<lparr>flash := (\<lambda>a. if unat (a - addr) < length buf
                                     then flash w a AND buf ! unat (a - addr)
                                     else flash w a)\<rparr>))"

subsection \<open>The persisted boot configuration\<close>

text \<open>
  Modelled from the spec: \<^verbatim>\<open>rboot_config\<close> is declared in rboot.h, which is not among
  the sources. Its layout is the persisted layout of the specification,
  \<^verbatim>\<open>{magic:u32, version:u8, mode:u8, current_rom:u8, count:u8, roms:[u32; MAX_SLOTS], reserved}\<close>,
  little-endian. A value of the structure is its object representation, the bytes
  that the flash primitives move.
\<close>

type_synonym rboot_config = "u8 list"

definition sizeof_rboot_config :: "platform \<Rightarrow> nat" where
  "sizeof_rboot_config P = 8 + 4 * MAX_ROMS P + CFG_RESERVED P"

text \<open>The \<^verbatim>\<open>uint32_t\<close> that four bytes in memory hold.\<close>

definition le32 :: "u8 list \<Rightarrow> u32" where
  "le32 bs = ucast (bs ! 0) OR push_bit 8 (ucast (bs ! 1)) OR push_bit 16 (ucast (bs ! 2))
             OR push_bit 24 (ucast (bs ! 3))"

definition cfg_current_rom :: "rboot_config \<Rightarrow> u8" where
  "cfg_current_rom c = c ! 6"

definition cfg_count :: "rboot_config \<Rightarrow> u8" where
  "cfg_count c = c ! 7"

definition cfg_roms :: "rboot_config \<Rightarrow> nat \<Rightarrow> u32" where
  "cfg_roms c i = le32 (take 4 (drop (8 + 4 * i) c))"

definition cfg_set_current_rom :: "u8 \<Rightarrow> rboot_config \<Rightarrow> rboot_config" where
  "cfg_set_current_rom r c = c[6 := r]"

text \<open>\<^verbatim>\<open>BOOT_CONFIG_SECTOR * SECTOR_SIZE\<close>, converted to the \<^verbatim>\<open>uint32_t\<close> address.\<close>

definition cfg_addr :: "platform \<Rightarrow> u32" where
  "cfg_addr P = of_nat (BOOT_CONFIG_SECTOR P * SECTOR_SIZE P)"

section \<open>rboot-new.c\<close>

definition led_on :: "world \<Rightarrow> world" where
  "led_on w = w\<lparr>led := True\<rparr>"

definition led_off :: "world \<Rightarrow> world" where
  "led_off w = w\<lparr>led := False\<rparr>"

text \<open>
  Modelled from the spec: \<^verbatim>\<open>system_rtc_mem\<close> is not among the sources; the
  specification gives the scratch memory a read and a write that cannot fail.
\<close>

definition rtc_read :: "nat \<Rightarrow> world \<Rightarrow> u32" where
  "rtc_read addr w = rtc w addr"

definition rtc_write :: "nat \<Rightarrow> u32 \<Rightarrow> world \<Rightarrow> world" where
  "rtc_write addr v w = w\<lparr>rtc := (rtc w)(addr := v)\<rparr>"

definition check_factory_reset :: "platform \<Rightarrow> world \<Rightarrow> u8" where
  "check_factory_reset P w =
     (let flag = rtc_read (FACTORY_RESET_FLAG_ADDR P) w
      in if flag = FACTORY_RESET_MAGIC then 1 else 0)"

definition rboot_set_factory_reset :: "platform \<Rightarrow> u8 \<Rightarrow> world \<Rightarrow> world" where
  "rboot_set_factory_reset P enable w =
     (let flag = (if enable \<noteq> 0 then FACTORY_RESET_MAGIC else 0)
      in rtc_write (FACTORY_RESET_FLAG_ADDR P) flag w)"

text \<open>
  \<^verbatim>\<open>rboot_get_current_rom\<close> does not look at the status of \<^verbatim>\<open>SPIRead\<close>. Its local
  \<^verbatim>\<open>romconf\<close> is not initialised: \<open>junk\<close> is what the stack holds there, and it is
  what is left in \<^verbatim>\<open>romconf\<close> by a read that fails.
\<close>

definition rboot_get_current_rom :: "platform \<Rightarrow> rboot_config \<Rightarrow> world \<Rightarrow> u8" where
  "rboot_get_current_rom P junk w =
     (let romconf = (case SPIRead (cfg_addr P) (sizeof_rboot_config P) w of
                       None \<Rightarrow> junk
                     | Some c \<Rightarrow> c)
      in cfg_current_rom romconf)"

definition rboot_set_boot_rom :: "platform \<Rightarrow> u8 \<Rightarrow> world \<Rightarrow> u8 \<times> world" where
  "rboot_set_boot_rom P rom w =
     (case SPIRead (cfg_addr P) (sizeof_rboot_config P) w of
        None \<Rightarrow> (0, w)
      | Some romconf \<Rightarrow>
          if rom \<ge> cfg_count romconf then (0, w)
          else
            let romconf' = cfg_set_current_rom rom romconf
            in case SPIEraseSector P (BOOT_CONFIG_SECTOR P) w of (rc1, w1) \<Rightarrow>
                 if rc1 \<noteq> 0 then (0, w1)
                 else case SPIWrite (cfg_addr P) romconf' w1 of (rc2, w2) \<Rightarrow>
                   if rc2 \<noteq> 0 then (0, w2) else (1, w2))"

text \<open>The confirmation blinks of \<^verbatim>\<open>perform_factory_reset\<close>; the delays leave no trace.\<close>

fun blink :: "nat \<Rightarrow> world \<Rightarrow> world" where
  "blink 0 w = w"
| "blink (Suc n) w = blink n (led_off (led_on w))"

text \<open>
  \<^verbatim>\<open>perform_factory_reset\<close> up to the point just before the \<^verbatim>\<open>break\<close> instruction
  that restarts the device. The statuses of the erase and of the write are dropped.
\<close>

definition perform_factory_reset :: "platform \<Rightarrow> world \<Rightarrow> world" where
  "perform_factory_reset P w =
     (let w1 = blink 5 w;
          flashsize =
            (case SPIRead 0 4 w1 of
               None \<Rightarrow> 0x100000
             | Some idb \<Rightarrow>
                 let id = le32 idb
                 in if id AND 0xFF = 0x40 then 0x200000
                    else if id AND 0xFF = 0x30 then 0x400000
                    else 0x100000);
          romconf = default_config P flashsize;
          w2 = snd (SPIEraseSector P (BOOT_CONFIG_SECTOR P) w1);
          w3 = snd (SPIWrite (cfg_addr P) romconf w2)
      in rboot_set_factory_reset P 0 w3)"

section \<open>rboot-ota.c\<close>

definition rboot_ota_is_in_progress :: "world \<Rightarrow> u8" where
  "rboot_ota_is_in_progress w = (if current_ota w \<noteq> None then 1 else 0)"

text \<open>\<^verbatim>\<open>sizeof(rom_header_t)\<close>: four bytes and a 32-bit pointer.\<close>

definition sizeof_rom_header :: nat where
  "sizeof_rom_header = 8"

definition verify_image :: "u32 \<Rightarrow> u32 \<Rightarrow> world \<Rightarrow> ota_result_t" where
  "verify_image addr len w =
     (case SPIRead addr sizeof_rom_header w of
        None \<Rightarrow> OTA_ERR_VERIFY
      | Some header \<Rightarrow>
          if header ! 0 \<noteq> 0xE9 then OTA_ERR_VERIFY else OTA_OK)"

definition get_rom_address :: "platform \<Rightarrow> u8 \<Rightarrow> world \<Rightarrow> u32" where
  "get_rom_address P rom w =
     (case SPIRead (cfg_addr P) (sizeof_rboot_config P) w of
        None \<Rightarrow> 0
      | Some config \<Rightarrow>
          if rom \<ge> cfg_count config then 0
          else cfg_roms config (unat rom))"

text \<open>
  A handle pointer is \<open>None\<close> (NULL) or the address of a handle in the store. The
  argument \<^verbatim>\<open>max_size\<close> is not used by the function.
\<close>

definition rboot_ota_begin ::
  "platform \<Rightarrow> nat option \<Rightarrow> u8 \<Rightarrow> u32 \<Rightarrow> world \<Rightarrow> ota_result_t \<times> world" where
  "rboot_ota_begin P handle rom max_size w =
     (case handle of
        None \<Rightarrow> (OTA_ERR_INVALID_ARGS, w)
      | Some p \<Rightarrow>
          if unat rom \<ge> MAX_ROMS P then (OTA_ERR_INVALID_ARGS, w)
          else if rboot_ota_is_in_progress w \<noteq> 0 then (OTA_ERR_IN_PROGRESS, w)
          else
            let h = zeroed_handle
                      \<lparr>target_addr := get_rom_address P rom w,
                       buffer := OTA_BUFFER,
                       buffer_size := of_nat OTA_BUFFER_SIZE,
                       state := OTA_STATE_READY,
                       target_rom := rom\<rparr>
            in if buffer h = NULL_BUFFER then (OTA_ERR_NO_MEM, put_handle p h w)
               else (OTA_OK,
                     (put_handle p (h\<lparr>state := OTA_STATE_STARTED\<rparr>) w)
                       \<lparr>current_ota := Some p\<rparr>))"

text \<open>
  The loop of \<^verbatim>\<open>rboot_ota_write\<close>; \<open>src\<close> is the data still to be written, so
  \<^verbatim>\<open>remaining\<close> is its length. The result is \<open>None\<close> when the call does not return:
  the loop does not end (a handle whose \<^verbatim>\<open>buffer_size\<close> is 0), or
  \<^verbatim>\<open>memcpy(handle->buffer, src, to_copy)\<close> copies a byte through a NULL \<^verbatim>\<open>buffer\<close> and
  traps. After the copy the buffer holds the first \<^verbatim>\<open>to_copy\<close> bytes of \<open>src\<close>, and
  these are what \<^verbatim>\<open>SPIWrite\<close> reads from it.
\<close>

partial_function (option) write_loop ::
  "platform \<Rightarrow> nat \<Rightarrow> u8 list \<Rightarrow> world \<Rightarrow> (ota_result_t \<times> world) option" where
  "write_loop P p src w =
     (if src = [] then Some (OTA_OK, w)
      else
        let h = handles w p;
            to_copy = (if length src < unat (buffer_size h) then length src
                       else unat (buffer_size h))
        in if buffer h = NULL_BUFFER \<and> 0 < to_copy then None
           else
             case SPIWrite (target_addr h + write_offset h) (take to_copy src) w of
               (rc, w1) \<Rightarrow>
                 if rc \<noteq> 0
                 then Some (OTA_ERR_WRITE, put_handle p (h\<lparr>state := OTA_STATE_ERROR\<rparr>) w1)
                 else
                   let h1 = h\<lparr>write_offset := write_offset h + of_nat to_copy,
                              written_size := written_size h + of_nat to_copy\<rparr>;
                       w2 = put_handle p h1 w1
                   in if unat (write_offset h1) mod SECTOR_SIZE P = 0
                      then
                        let sector = unat (target_addr h1 + write_offset h1) div SECTOR_SIZE P
                        in case SPIEraseSector P sector w2 of
                             (rc2, w3) \<Rightarrow>
                               if rc2 \<noteq> 0
                               then Some (OTA_ERR_ERASE,
                                          put_handle p (h1\<lparr>state := OTA_STATE_ERROR\<rparr>) w3)
                               else write_loop P p (drop to_copy src) w3
                      else write_loop P p (drop to_copy src) w2)"

text \<open>
  \<^verbatim>\<open>rboot_ota_write(handle, data, size)\<close>: \<open>data\<close> is \<open>None\<close> for a NULL pointer and
  otherwise the \<^verbatim>\<open>size\<close> bytes it points to.
\<close>

definition rboot_ota_write ::
  "platform \<Rightarrow> nat option \<Rightarrow> u8 list option \<Rightarrow> world \<Rightarrow> (ota_result_t \<times> world) option" where
  "rboot_ota_write P handle data w =
     (case handle of
        None \<Rightarrow> Some (OTA_ERR_INVALID_ARGS, w)
      | Some p \<Rightarrow>
          (case data of
             None \<Rightarrow> Some (OTA_ERR_INVALID_ARGS, w)
           | Some src \<Rightarrow>
               if length src = 0 then Some (OTA_ERR_INVALID_ARGS, w)
               else if state (handles w p) \<noteq> OTA_STATE_STARTED
                       \<and> state (handles w p) \<noteq> OTA_STATE_WRITING
                    then Some (OTA_ERR_INVALID_ARGS, w)
               else write_loop P p src
                      (put_handle p ((handles w p)\<lparr>state := OTA_STATE_WRITING\<rparr>) w)))"

definition rboot_ota_end :: "platform \<Rightarrow> nat option \<Rightarrow> world \<Rightarrow> ota_result_t \<times> world" where
  "rboot_ota_end P handle w =
     (case handle of
        None \<Rightarrow> (OTA_ERR_INVALID_ARGS, w)
      | Some p \<Rightarrow>
          if state (handles w p) \<noteq> OTA_STATE_WRITING then (OTA_ERR_INVALID_ARGS, w)
          else
            let h = handles w p;
                w1 = put_handle p (h\<lparr>state := OTA_STATE_VERIFYING\<rparr>) w;
                result = verify_image (target_addr h) (write_offset h) w1;
                w2 = (if result = OTA_OK
                      then snd (rboot_set_boot_rom P (target_rom h)
                                  (put_handle p (h\<lparr>state := OTA_STATE_COMPLETE\<rparr>) w1))
                      else put_handle p (h\<lparr>state := OTA_STATE_ERROR\<rparr>) w1)
            in (result, w2\<lparr>current_ota := None\<rparr>))"

definition rboot_ota_cancel :: "nat option \<Rightarrow> world \<Rightarrow> world" where
  "rboot_ota_cancel handle w =
     (case handle of
        None \<Rightarrow> w
      | Some p \<Rightarrow>
          let w1 = put_handle p ((handles w p)\<lparr>state := OTA_STATE_ERROR\<rparr>) w
          in if current_ota w1 = Some p then w1\<lparr>current_ota := None\<rparr> else w1)"

text \<open>
  \<^verbatim>\<open>rboot_ota_get_status(handle, progress)\<close>: \<open>want\<close> says whether \<^verbatim>\<open>progress\<close> is a
  non-NULL pointer; the second component is the byte stored through it, if any.
\<close>

definition rboot_ota_get_status ::
  "nat option \<Rightarrow> bool \<Rightarrow> world \<Rightarrow> ota_state_t \<times> u8 option" where
  "rboot_ota_get_status handle want w =
     (case handle of
        None \<Rightarrow> (OTA_STATE_ERROR, None)
      | Some p \<Rightarrow>
          let h = handles w p
          in (state h,
              if want
              then Some (if total_size h > 0
                         then ucast ((written_size h * 100) div total_size h)
                         else 0)
              else None))"

section \<open>Callers and sample machines\<close>

text \<open>
  The flash size that the reset estimates, read off the identity byte at flash
  address 0: 2 MiB for 0x40, 4 MiB for 0x30, 1 MiB otherwise and when the probe fails.
\<close>

definition estimated_flashsize :: "world \<Rightarrow> u32" where
  "estimated_flashsize w =
     (if read_fault w 0 then 0x100000
      else if flash w 0 = 0x40 then 0x200000
      else if flash w 0 = 0x30 then 0x400000
      else 0x100000)"

text \<open>
  A caller that feeds a stream to a session in the given chunks, one
  \<^verbatim>\<open>rboot_ota_write\<close> per chunk, and stops at the first result other than \<open>OTA_OK\<close>.
\<close>

fun feed ::
  "platform \<Rightarrow> nat \<Rightarrow> u8 list list \<Rightarrow> world \<Rightarrow> (ota_result_t \<times> world) option" where
  "feed P p [] w = Some (OTA_OK, w)"
| "feed P p (c # cs) w =
     (case rboot_ota_write P (Some p) (Some c) w of
        None \<Rightarrow> None
      | Some (r, w') \<Rightarrow> if r = OTA_OK then feed P p cs w' else Some (r, w'))"

text \<open>
  The calls of the interface of rboot-ota.h and their effect on the machine (\<open>None\<close>
  when a call does not return).
\<close>

datatype api_call =
    Begin "nat option" u8 u32
  | Write "nat option" "u8 list option"
  | End "nat option"
  | Cancel "nat option"
  | GetStatus "nat option" bool
  | IsInProgress

fun api_step :: "platform \<Rightarrow> api_call \<Rightarrow> world \<Rightarrow> world option" where
  "api_step P (Begin h r m) w = Some (snd (rboot_ota_begin P h r m w))"
| "api_step P (Write h d) w = map_option snd (rboot_ota_write P h d w)"
| "api_step P (End h) w = Some (snd (rboot_ota_end P h w))"
| "api_step P (Cancel h) w = Some (rboot_ota_cancel h w)"
| "api_step P (GetStatus h want) w = Some w"
| "api_step P IsInProgress w = Some w"

fun api_run :: "platform \<Rightarrow> api_call list \<Rightarrow> world \<Rightarrow> world option" where
  "api_run P [] w = Some w"
| "api_run P (c # cs) w =
     (case api_step P c w of None \<Rightarrow> None | Some w' \<Rightarrow> api_run P cs w')"

text \<open>
  The calls that neither end nor cancel the session of the handle at \<open>p\<close>: every
  begin, write, get-status and is-in-progress call, a cancel of another handle, and an
  end that is rejected because its handle is NULL or not in state \<open>WRITING\<close>. (An end
  of the session's own handle in \<open>WRITING\<close> takes the session to \<open>COMPLETE\<close> or
  \<open>ERROR\<close>; an end of another handle that is in \<open>WRITING\<close> is not among these calls
  either.) \<open>undisturbed P p cs w\<close> says that the calls \<open>cs\<close>, made in turn from \<open>w\<close>,
  are all of this kind.
\<close>

fun leaves_session :: "nat \<Rightarrow> api_call \<Rightarrow> world \<Rightarrow> bool" where
  "leaves_session p (End h) w =
     (case h of None \<Rightarrow> True | Some q \<Rightarrow> state (handles w q) \<noteq> OTA_STATE_WRITING)"
| "leaves_session p (Cancel h) w = (h \<noteq> Some p)"
| "leaves_session p (Begin h r m) w = True"
| "leaves_session p (Write h d) w = True"
| "leaves_session p (GetStatus h want) w = True"
| "leaves_session p IsInProgress w = True"

fun undisturbed :: "platform \<Rightarrow> nat \<Rightarrow> api_call list \<Rightarrow> world \<Rightarrow> bool" where
  "undisturbed P p [] w = True"
| "undisturbed P p (c # cs) w =
     (leaves_session p c w \<and>
      (case api_step P c w of None \<Rightarrow> True | Some w' \<Rightarrow> undisturbed P p cs w'))"

text \<open>
  A sample platform with the customary values of rBoot on the ESP8266: 4 KiB sectors,
  four slots, the configuration in sector 1. Its default configuration has two slots,
  the second one placed by the flash size.
\<close>

definition sample_default_config :: "u32 \<Rightarrow> u8 list" where
  "sample_default_config flashsize =
     [0xE1, 0, 0, 0, 1, 0, 0, 2, 0, 0x20, 0, 0] @
     (if flashsize = 0x100000 then [0, 0x20, 0x08, 0] else [0, 0x20, 0x10, 0]) @
     [0, 0, 0, 0, 0, 0, 0, 0]"

definition esp8266 :: platform where
  "esp8266 = \<lparr>SECTOR_SIZE = 4096, MAX_ROMS = 4, BOOT_CONFIG_SECTOR = 1,
              RBOOT_RTC_ADDR = 64, CFG_RESERVED = 0,
              default_config = sample_default_config\<rparr>"

text \<open>
  A sample flash: a configuration at 0x1000 with \<open>current_rom = 0\<close>, \<open>count = 2\<close>,
  \<open>roms = [0x2000, 0x82000, 0, 0]\<close>; every other byte is 0x00, as left by earlier
  programming.
\<close>

definition sample_flash :: "u32 \<Rightarrow> u8" where
  "sample_flash a =
     (if a = 0x1000 then 0xE1 else if a = 0x1004 then 1 else if a = 0x1007 then 2
      else if a = 0x1009 then 0x20 else if a = 0x100D then 0x20 else if a = 0x100E then 0x08
      else 0)"

text \<open>A machine with that flash, no faults and no session.\<close>

definition idle_world :: world where
  "idle_world =
     \<lparr>flash = sample_flash,
      read_fault = (\<lambda>a. False), erase_fault = (\<lambda>s. False), write_fault = (\<lambda>a. False),
      trace = [], rtc = (\<lambda>a. 0), led = False, current_ota = None,
      handles = (\<lambda>p. zeroed_handle)\<rparr>"

text \<open>
  The same machine with a custom selection, \<open>current_rom = 1\<close>, on a flash whose
  identity byte is 0x40.
\<close>

definition custom_world :: world where
  "custom_world = idle_world\<lparr>flash := (flash idle_world)(0 := 0x40, 0x1006 := 1)\<rparr>"

text \<open>The machine after \<^verbatim>\<open>rboot_ota_begin(&h, 0, 65536)\<close>, the handle at address 0.\<close>

definition started_world :: world where
  "started_world = snd (rboot_ota_begin esp8266 (Some 0) 0 65536 idle_world)"

text \<open>
  A machine whose session for slot 1 is in state \<open>WRITING\<close>; in \<open>written_world\<close> the
  image at the slot's address 0x82000 starts with the magic byte, and
  \<open>stuck_world\<close> is the same machine with a configuration sector that cannot be erased.
\<close>

definition writing_world :: world where
  "writing_world =
     (put_handle 0 (zeroed_handle\<lparr>target_addr := 0x82000, buffer := OTA_BUFFER,
                                  buffer_size := 4096, state := OTA_STATE_WRITING,
                                  target_rom := 1\<rparr>) idle_world)
       \<lparr>current_ota := Some 0\<rparr>"

definition written_world :: world where
  "written_world = writing_world\<lparr>flash := (flash writing_world)(0x82000 := 0xE9)\<rparr>"

definition stuck_world :: world where
  "stuck_world = written_world\<lparr>erase_fault := (\<lambda>s. s = 1)\<rparr>"

section \<open>Facts about the devices and the configuration\<close>

lemma SPIRead_nth:
  "SPIRead a n w = Some c \<Longrightarrow> i < n \<Longrightarrow> c ! i = flash w (a + of_nat i)"
  by (auto simp: SPIRead_def split: if_splits)

lemma SPIRead_length:
  "SPIRead a n w = Some c \<Longrightarrow> length c = n"
  by (auto simp: SPIRead_def split: if_splits)

lemma SPIRead_None: "SPIRead a n w = None \<longleftrightarrow> read_fault w a"
  by (simp add: SPIRead_def)

lemma SPIWrite_handles: "SPIWrite a bs w = (rc, w') \<Longrightarrow> handles w' = handles w"
  by (auto simp: SPIWrite_def Let_def split: if_splits)

lemma SPIEraseSector_handles: "SPIEraseSector P s w = (rc, w') \<Longrightarrow> handles w' = handles w"
  by (auto simp: SPIEraseSector_def Let_def split: if_splits)

lemma cfg_count_read:
  "SPIRead (cfg_addr P) (sizeof_rboot_config P) w = Some c \<Longrightarrow>
   cfg_count c = flash w (cfg_addr P + 7)"
  using SPIRead_nth [of "cfg_addr P" "sizeof_rboot_config P" w c 7]
  by (simp add: cfg_count_def sizeof_rboot_config_def)

lemma cfg_current_rom_read:
  "SPIRead (cfg_addr P) (sizeof_rboot_config P) w = Some c \<Longrightarrow>
   cfg_current_rom c = flash w (cfg_addr P + 6)"
  using SPIRead_nth [of "cfg_addr P" "sizeof_rboot_config P" w c 6]
  by (simp add: cfg_current_rom_def sizeof_rboot_config_def)

lemma cfg_roms_read:
  assumes "SPIRead (cfg_addr P) (sizeof_rboot_config P) w = Some c" and "i < MAX_ROMS P"
  shows "cfg_roms c i =
           le32 [flash w (cfg_addr P + of_nat (8 + 4 * i)),
                 flash w (cfg_addr P + of_nat (8 + 4 * i + 1)),
                 flash w (cfg_addr P + of_nat (8 + 4 * i + 2)),
                 flash w (cfg_addr P + of_nat (8 + 4 * i + 3))]"
proof -
  have len: "length c = 8 + 4 * MAX_ROMS P + CFG_RESERVED P"
    using SPIRead_length [OF assms(1)] by (simp add: sizeof_rboot_config_def)
  have n: "\<And>k. k < 4 \<Longrightarrow> c ! (8 + 4 * i + k) = flash w (cfg_addr P + of_nat (8 + 4 * i + k))"
    using assms(2) by (intro SPIRead_nth [OF assms(1)]) (simp add: sizeof_rboot_config_def)
  show ?thesis
    using len assms(2) n [of 0] n [of 1] n [of 2] n [of 3]
    by (simp add: cfg_roms_def le32_def)
qed

text \<open>The three readers of the configuration, in terms of the flash.\<close>

lemma get_rom_address_eq:
  assumes "unat rom < MAX_ROMS P"
  shows "get_rom_address P rom w =
           (if read_fault w (cfg_addr P) \<or> flash w (cfg_addr P + 7) \<le> rom then 0
            else le32 [flash w (cfg_addr P + of_nat (8 + 4 * unat rom)),
                       flash w (cfg_addr P + of_nat (8 + 4 * unat rom + 1)),
                       flash w (cfg_addr P + of_nat (8 + 4 * unat rom + 2)),
                       flash w (cfg_addr P + of_nat (8 + 4 * unat rom + 3))])"
proof (cases "SPIRead (cfg_addr P) (sizeof_rboot_config P) w")
  case None
  then have "read_fault w (cfg_addr P)" by (simp add: SPIRead_None)
  then show ?thesis by (simp add: get_rom_address_def None)
next
  case (Some c)
  then have "\<not> read_fault w (cfg_addr P)" by (simp add: SPIRead_def split: if_splits)
  then show ?thesis
    using cfg_count_read [OF Some] cfg_roms_read [OF Some assms]
    by (simp add: get_rom_address_def Some)
qed

lemma get_current_rom_eq:
  "rboot_get_current_rom P junk w =
     (if read_fault w (cfg_addr P) then cfg_current_rom junk else flash w (cfg_addr P + 6))"
proof (cases "SPIRead (cfg_addr P) (sizeof_rboot_config P) w")
  case None
  then have "read_fault w (cfg_addr P)" by (simp add: SPIRead_None)
  then show ?thesis by (simp add: rboot_get_current_rom_def None)
next
  case (Some c)
  then have "\<not> read_fault w (cfg_addr P)" by (simp add: SPIRead_def split: if_splits)
  then show ?thesis
    using cfg_current_rom_read [OF Some] by (simp add: rboot_get_current_rom_def Some)
qed

lemma verify_image_eq:
  "verify_image addr len w =
     (if \<not> read_fault w addr \<and> flash w addr = 0xE9 then OTA_OK else OTA_ERR_VERIFY)"
  by (simp add: verify_image_def SPIRead_def sizeof_rom_header_def upt_conv_Cons)

text \<open>When \<^verbatim>\<open>rboot_set_boot_rom\<close> gives up before it touches the flash.\<close>

lemma set_boot_rom_bad_slot:
  assumes "flash w (cfg_addr P + 7) \<le> rom"
  shows "rboot_set_boot_rom P rom w = (0, w)"
proof (cases "SPIRead (cfg_addr P) (sizeof_rboot_config P) w")
  case None
  then show ?thesis by (simp add: rboot_set_boot_rom_def)
next
  case (Some c)
  with assms cfg_count_read [OF Some] show ?thesis
    by (simp add: rboot_set_boot_rom_def)
qed

lemma set_boot_rom_read_fault:
  "read_fault w (cfg_addr P) \<Longrightarrow> rboot_set_boot_rom P rom w = (0, w)"
  by (simp add: rboot_set_boot_rom_def SPIRead_def)

lemma set_boot_rom_erase_fault:
  "erase_fault w (BOOT_CONFIG_SECTOR P) \<Longrightarrow>
   fst (rboot_set_boot_rom P rom w) = 0 \<and> flash (snd (rboot_set_boot_rom P rom w)) = flash w"
  by (simp add: rboot_set_boot_rom_def SPIEraseSector_def Let_def split: option.splits)

lemma set_boot_rom_frame:
  "handles (snd (rboot_set_boot_rom P rom w)) = handles w"
  "current_ota (snd (rboot_set_boot_rom P rom w)) = current_ota w"
  "read_fault (snd (rboot_set_boot_rom P rom w)) = read_fault w"
  by (auto simp: rboot_set_boot_rom_def SPIEraseSector_def SPIWrite_def Let_def
           split: option.splits)

lemma set_boot_rom_handles_update:
  "rboot_set_boot_rom P rom (w\<lparr>handles := H\<rparr>) =
     (fst (rboot_set_boot_rom P rom w), (snd (rboot_set_boot_rom P rom w))\<lparr>handles := H\<rparr>)"
  by (simp add: rboot_set_boot_rom_def SPIRead_def SPIEraseSector_def SPIWrite_def Let_def
           cong: if_cong)

subsection \<open>Words\<close>

lemma le32_low_byte: "le32 [b0, b1, b2, b3] AND 0xFF = ucast b0"
proof -
  have m: "(255 :: u32) = mask 8" by (simp add: mask_eq_exp_minus_1)
  show ?thesis
    unfolding m le32_def
    by (rule bit_eqI) (auto simp: bit_simps dest: bit_imp_le_length)
qed

lemma ucast_u8_eq_iff: "(ucast (b::u8) :: u32) = ucast c \<longleftrightarrow> b = c"
proof
  assume a: "(ucast b :: u32) = ucast c"
  have "\<And>x::u8. ucast (ucast x :: u32) = x"
    by (rule ucast_up_ucast_id) (simp add: is_up)
  then show "b = c" using a by metis
qed simp

lemma unat_cfg_addr:
  assumes "BOOT_CONFIG_SECTOR P * SECTOR_SIZE P + SECTOR_SIZE P \<le> 2 ^ 32" "i < SECTOR_SIZE P"
  shows "unat (cfg_addr P + of_nat i) = BOOT_CONFIG_SECTOR P * SECTOR_SIZE P + i"
proof -
  have "cfg_addr P + of_nat i = of_nat (BOOT_CONFIG_SECTOR P * SECTOR_SIZE P + i)"
    by (simp add: cfg_addr_def)
  moreover have "BOOT_CONFIG_SECTOR P * SECTOR_SIZE P + i < 2 ^ 32"
    using assms by simp
  ultimately show ?thesis by (simp add: unat_of_nat del: of_nat_mult of_nat_add)
qed

lemma unat_of_nat_u32: "i < 2 ^ 32 \<Longrightarrow> unat (of_nat i :: u32) = i"
  by (simp add: unat_of_nat)

lemma erased_AND: "(0xFF :: u8) AND x = x"
proof -
  have "(0xFF :: u8) = - 1" by simp
  then show ?thesis by (simp only: and.left_neutral)
qed

subsection \<open>The factory reset\<close>

lemma blink_eq: "blink n w = (if n = 0 then w else w\<lparr>led := False\<rparr>)"
  by (induction n arbitrary: w) (auto simp: led_on_def led_off_def)

lemma perform_factory_reset_eq:
  "perform_factory_reset P w =
     rboot_set_factory_reset P 0
       (snd (SPIWrite (cfg_addr P) (default_config P (estimated_flashsize w))
          (snd (SPIEraseSector P (BOOT_CONFIG_SECTOR P) (w\<lparr>led := False\<rparr>)))))"
  using ucast_u8_eq_iff [of "flash w 0" "0x40"] ucast_u8_eq_iff [of "flash w 0" "0x30"]
  by (simp add: perform_factory_reset_def estimated_flashsize_def SPIRead_def upt_conv_Cons
                le32_low_byte Let_def blink_eq del: ucast_u8_eq_iff)

subsection \<open>The session slot\<close>

lemma write_loop_current_ota:
  assumes "write_loop P p src w = Some y"
  shows "current_ota (snd y) = current_ota w"
proof -
  have "(\<lambda>x y. current_ota (snd y) = current_ota (snd x)) (((P, p), src), w) y"
  proof (rule write_loop.raw_induct [OF _ assms], goal_cases)
    case (1 f P p src w y)
    show ?case
    proof (cases "src = []")
      case True
      with 1(2) show ?thesis by auto
    next
      case False
      with 1(2) show ?thesis
        by (auto simp: Let_def SPIWrite_def SPIEraseSector_def put_handle_def
                 split: if_splits dest!: 1(1))
    qed
  qed
  then show ?thesis by simp
qed

lemma write_current_ota:
  "rboot_ota_write P h d w = Some y \<Longrightarrow> current_ota (snd y) = current_ota w"
  by (auto simp: rboot_ota_write_def put_handle_def split: option.splits if_splits
           dest!: write_loop_current_ota)

text \<open>The slot is compared with the compile-time bound, whatever the stored count.\<close>

lemma begin_rejects_slot_beyond_MAX_ROMS:
  "MAX_ROMS P \<le> unat rom \<Longrightarrow> rboot_ota_begin P h rom m w = (OTA_ERR_INVALID_ARGS, w)"
  by (simp add: rboot_ota_begin_def split: option.splits)

lemma begin_while_live:
  "current_ota w = Some q \<Longrightarrow>
   rboot_ota_begin P h r m w =
     (if h = None \<or> MAX_ROMS P \<le> unat r then OTA_ERR_INVALID_ARGS else OTA_ERR_IN_PROGRESS, w)"
  by (simp add: rboot_ota_begin_def rboot_ota_is_in_progress_def split: option.splits)

lemma end_rejected:
  "(case h of None \<Rightarrow> True | Some q \<Rightarrow> state (handles w q) \<noteq> OTA_STATE_WRITING) \<Longrightarrow>
   rboot_ota_end P h w = (OTA_ERR_INVALID_ARGS, w)"
  by (simp add: rboot_ota_end_def split: option.splits)

text \<open>
  \<^verbatim>\<open>rboot_ota_end\<close> clears the session slot without comparing it with its handle, as
  \<^verbatim>\<open>rboot_ota_cancel\<close> does: the end of any handle in state \<open>WRITING\<close> frees the slot.
\<close>

lemma end_frees_slot_of_any_handle:
  "state (handles w q) = OTA_STATE_WRITING \<Longrightarrow>
   current_ota (snd (rboot_ota_end P (Some q) w)) = None"
  by (simp add: rboot_ota_end_def Let_def)

lemma cancel_other_handle:
  "current_ota w = Some q \<Longrightarrow> h \<noteq> Some q \<Longrightarrow> current_ota (rboot_ota_cancel h w) = Some q"
  by (auto simp: rboot_ota_cancel_def put_handle_def Let_def split: option.splits)

lemma api_step_session:
  "current_ota w = Some q \<Longrightarrow> leaves_session q c w \<Longrightarrow> api_step P c w = Some w' \<Longrightarrow>
   current_ota w' = Some q"
  by (cases c)
     (auto simp: begin_while_live end_rejected cancel_other_handle dest: write_current_ota)

lemma api_run_session:
  "current_ota w = Some q \<Longrightarrow> undisturbed P q cs w \<Longrightarrow> api_run P cs w = Some w' \<Longrightarrow>
   current_ota w' = Some q"
proof (induction cs arbitrary: w)
  case Nil
  then show ?case by simp
next
  case (Cons c cs)
  then show ?case
    by (auto split: option.splits dest: api_step_session)
qed

lemma begin_OK_claims:
  "rboot_ota_begin P (Some p) r m w = (OTA_OK, w1) \<Longrightarrow> current_ota w1 = Some p"
  by (auto simp: rboot_ota_begin_def Let_def put_handle_def split: if_splits)

subsection \<open>The write loop returns\<close>

text \<open>
  With the buffer and a positive size in the handle, as \<^verbatim>\<open>rboot_ota_begin\<close> sets them,
  every call of the loop returns.
\<close>

lemma write_loop_returns:
  "buffer (handles w p) = OTA_BUFFER \<Longrightarrow> 0 < unat (buffer_size (handles w p)) \<Longrightarrow>
   \<exists>y. write_loop P p src w = Some y"
proof (induction "length src" arbitrary: src w rule: less_induct)
  case less
  show ?case
  proof (cases "src = []")
    case True
    then show ?thesis by (subst write_loop.simps) simp
  next
    case False
    define n where "n = (if length src < unat (buffer_size (handles w p)) then length src
                         else unat (buffer_size (handles w p)))"
    have n: "0 < n" using False less.prems by (simp add: n_def)
    have len: "length (drop n src) < length src" using n False by simp
    have IH: "\<And>w'. buffer (handles w' p) = buffer (handles w p) \<Longrightarrow>
                   buffer_size (handles w' p) = buffer_size (handles w p) \<Longrightarrow>
                 \<exists>r v. write_loop P p (drop n src) w' = Some (r, v)"
      using less.hyps [OF len] less.prems by simp
    show ?thesis
      unfolding write_loop.simps [of P p src w] Let_def n_def [symmetric]
      using False less.prems(1)
      by (auto simp: put_handle_def split: prod.splits
               dest!: SPIWrite_handles SPIEraseSector_handles intro!: IH)
  qed
qed

subsection \<open>The sample machines\<close>

lemma esp8266_simps:
  "SECTOR_SIZE esp8266 = 4096" "MAX_ROMS esp8266 = 4" "BOOT_CONFIG_SECTOR esp8266 = 1"
  "default_config esp8266 = sample_default_config" "cfg_addr esp8266 = 0x1000"
  by (simp_all add: esp8266_def cfg_addr_def)

lemma idle_world_simps:
  "current_ota idle_world = None" "flash idle_world = sample_flash"
  "read_fault idle_world = (\<lambda>a. False)" "erase_fault idle_world = (\<lambda>a. False)"
  "write_fault idle_world = (\<lambda>a. False)" "trace idle_world = []"
  "handles idle_world = (\<lambda>p. zeroed_handle)"
  by (simp_all add: idle_world_def)

lemma begin_idle:
  "rboot_ota_begin esp8266 (Some 0) 0 65536 idle_world =
     (OTA_OK,
      (put_handle 0 (zeroed_handle\<lparr>target_addr := 0x2000, buffer := OTA_BUFFER,
                          buffer_size := 4096, state := OTA_STATE_STARTED, target_rom := 0\<rparr>)
        idle_world)\<lparr>current_ota := Some 0\<rparr>)"
proof -
  have a: "get_rom_address esp8266 0 idle_world = 0x2000"
    by (simp add: get_rom_address_eq esp8266_simps)
       (simp add: idle_world_simps sample_flash_def le32_def)
  show ?thesis
    by (simp add: rboot_ota_begin_def esp8266_simps rboot_ota_is_in_progress_def a
          Let_def OTA_BUFFER_SIZE_def idle_world_simps zeroed_handle_def)
qed

lemma started_world_eq:
  "started_world =
     (put_handle 0 (zeroed_handle\<lparr>target_addr := 0x2000, buffer := OTA_BUFFER,
                          buffer_size := 4096, state := OTA_STATE_STARTED, target_rom := 0\<rparr>)
        idle_world)\<lparr>current_ota := Some 0\<rparr>"
  by (simp add: started_world_def begin_idle)

lemmas eval_simps =
  rboot_ota_write_def put_handle_def write_loop.simps zeroed_handle_def SPIWrite_def
  SPIEraseSector_def Let_def idle_world_def esp8266_simps sample_flash_def

section \<open>The claims\<close>

text \<open>
  C1. Within a session every sector is erased at most once, before its first byte is
  programmed, and no byte is programmed into a sector not yet erased in the session.
  The code erases a sector only after a write has ended exactly on that sector's
  boundary, so the first sector of a slot is never erased: after
  \<^verbatim>\<open>rboot_ota_begin\<close> for slot 0 (at 0x2000) a write of one byte 0xE9 returns \<open>OTA_OK\<close>
  with a single program operation and no erase in the trace, and the stale byte 0x00
  of that sector stays 0x00.
\<close>

theorem C1_first_sector_programmed_without_erase:
  "map_option (\<lambda>r. (fst r, trace (snd r), flash (snd r) 0x2000))
     (rboot_ota_write esp8266 (Some 0) (Some [0xE9]) started_world)
   = Some (OTA_OK, [Program 0x2000 [0xE9]], 0)"
  by (simp add: started_world_eq eval_simps)

text \<open>
  C2. The final flash contents, with the sectors erased, do not depend on how the
  caller splits the stream into write calls. In the code they do: 4097 bytes written
  in one call erase sector 3 after the first 4096 bytes, so the byte at 0x3000 ends as
  0xE9 and the byte after it as 0xFF; the same bytes written as one byte and then 4096
  bytes never end a write on the boundary, nothing is erased, and both bytes stay 0x00.
\<close>

theorem C2_flash_depends_on_chunking:
  "map_option (\<lambda>r. (fst r, trace (snd r), flash (snd r) 0x3000, flash (snd r) 0x3001))
     (feed esp8266 0 [replicate 4097 0xE9] started_world)
   = Some (OTA_OK,
           [Program 0x2000 (replicate 4096 0xE9), Erase 3, Program 0x3000 [0xE9]],
           0xE9, 0xFF)
 \<and> map_option (\<lambda>r. (fst r, trace (snd r), flash (snd r) 0x3000, flash (snd r) 0x3001))
     (feed esp8266 0 [[0xE9], replicate 4096 0xE9] started_world)
   = Some (OTA_OK, [Program 0x2000 [0xE9], Program 0x2001 (replicate 4096 0xE9)], 0, 0)"
  by (simp add: started_world_eq eval_simps)

text \<open>
  C3. \<^verbatim>\<open>rboot_ota_begin\<close> fails with \<open>OTA_ERR_INVALID_ARGS\<close> for every target slot at or
  above the configured count, and no session is in progress afterwards. The code
  compares the slot with \<open>MAX_ROMS\<close> only: with two configured slots, slot 3 is
  accepted, the session is claimed, and its target address is the 0 that
  \<^verbatim>\<open>get_rom_address\<close> returns for a slot that is not configured.
\<close>

theorem C3_begin_accepts_unconfigured_slot:
  "flash idle_world (cfg_addr esp8266 + 7) = 2
 \<and> rboot_ota_is_in_progress idle_world = 0
 \<and> fst (rboot_ota_begin esp8266 (Some 0) 3 65536 idle_world) = OTA_OK
 \<and> rboot_ota_is_in_progress (snd (rboot_ota_begin esp8266 (Some 0) 3 65536 idle_world)) = 1
 \<and> target_addr (handles (snd (rboot_ota_begin esp8266 (Some 0) 3 65536 idle_world)) 0) = 0"
proof -
  have a: "get_rom_address esp8266 3 idle_world = 0"
    by (simp add: get_rom_address_eq esp8266_simps)
       (simp add: idle_world_simps sample_flash_def)
  show ?thesis
    by (simp add: rboot_ota_begin_def esp8266_simps rboot_ota_is_in_progress_def a
          Let_def OTA_BUFFER_SIZE_def idle_world_simps zeroed_handle_def put_handle_def
          sample_flash_def)
qed

text \<open>
  C4. Called on a session in state \<open>WRITING\<close>, \<^verbatim>\<open>rboot_ota_end\<close> leaves the handle in
  \<open>COMPLETE\<close> exactly when the header is read back from the target address and its
  first byte is 0xE9. In every other case (the read fails or the byte differs) it
  returns \<open>OTA_ERR_VERIFY\<close>, the handle is in \<open>ERROR\<close>, and the flash, hence the persisted
  \<open>current_rom\<close>, is untouched: no erase or program was issued.
\<close>

theorem C4_end_complete_iff_magic:
  assumes "state (handles w p) = OTA_STATE_WRITING"
  shows "(state (handles (snd (rboot_ota_end P (Some p) w)) p) = OTA_STATE_COMPLETE \<longleftrightarrow>
            \<not> read_fault w (target_addr (handles w p)) \<and>
            flash w (target_addr (handles w p)) = 0xE9)
       \<and> (state (handles (snd (rboot_ota_end P (Some p) w)) p) = OTA_STATE_COMPLETE \<or>
            fst (rboot_ota_end P (Some p) w) = OTA_ERR_VERIFY \<and>
            state (handles (snd (rboot_ota_end P (Some p) w)) p) = OTA_STATE_ERROR \<and>
            flash (snd (rboot_ota_end P (Some p) w)) = flash w \<and>
            trace (snd (rboot_ota_end P (Some p) w)) = trace w \<and>
            rboot_get_current_rom P junk (snd (rboot_ota_end P (Some p) w))
              = rboot_get_current_rom P junk w)"
  using assms
  by (simp add: rboot_ota_end_def Let_def verify_image_eq put_handle_def set_boot_rom_frame
                get_current_rom_eq)

theorem C4_end_complete_iff_magic_witness:
  "state (handles writing_world 0) = OTA_STATE_WRITING
 \<and> fst (rboot_ota_end esp8266 (Some 0) writing_world) = OTA_ERR_VERIFY
 \<and> state (handles (snd (rboot_ota_end esp8266 (Some 0) writing_world)) 0) = OTA_STATE_ERROR
 \<and> flash (snd (rboot_ota_end esp8266 (Some 0) writing_world)) = flash writing_world"
proof -
  have h: "state (handles writing_world 0) = OTA_STATE_WRITING"
    by (simp add: writing_world_def put_handle_def)
  have m: "flash writing_world (target_addr (handles writing_world 0)) \<noteq> 0xE9"
    by (simp add: writing_world_def put_handle_def idle_world_def sample_flash_def)
  show ?thesis
    using h m C4_end_complete_iff_magic [OF h, of esp8266 "[]"] by auto
qed

text \<open>
  C5 (as amended). After \<^verbatim>\<open>rboot_ota_begin\<close> has succeeded for a handle, the session
  slot stays with that handle through any further calls that return and neither end
  nor cancel the session: begin, write, get-status and is-in-progress calls, cancels
  of other handles, and ends that are rejected. At any such point a further
  \<^verbatim>\<open>rboot_ota_begin\<close> fails and changes nothing: with \<open>OTA_ERR_INVALID_ARGS\<close> when its
  handle is NULL or its slot is \<open>MAX_ROMS\<close> or more, since the arguments are checked
  first, and with \<open>OTA_ERR_IN_PROGRESS\<close> when its handle is not NULL and its slot is a
  configured one, below \<open>MAX_ROMS\<close> and below the stored count.
\<close>

theorem C5_second_begin_in_progress:
  assumes "rboot_ota_begin P (Some p) r m w = (OTA_OK, w1)"
    and "undisturbed P p cs w1"
    and "api_run P cs w1 = Some w2"
  shows "current_ota w2 = Some p
       \<and> (h2 = None \<or> MAX_ROMS P \<le> unat r2
            \<longrightarrow> rboot_ota_begin P h2 r2 m2 w2 = (OTA_ERR_INVALID_ARGS, w2))
       \<and> (h2 \<noteq> None \<and> unat r2 < MAX_ROMS P \<and> r2 < flash w2 (cfg_addr P + 7)
            \<longrightarrow> rboot_ota_begin P h2 r2 m2 w2 = (OTA_ERR_IN_PROGRESS, w2))"
proof -
  have s: "current_ota w2 = Some p"
    using api_run_session [OF begin_OK_claims [OF assms(1)] assms(2) assms(3)] .
  show ?thesis using s by (auto simp: begin_while_live)
qed

theorem C5_second_begin_in_progress_witness:
  "rboot_ota_begin esp8266 (Some 0) 0 65536 idle_world = (OTA_OK, started_world)
 \<and> undisturbed esp8266 0
      [Write (Some 0) (Some [0xE9]), GetStatus (Some 0) True, Cancel (Some 1), End (Some 2),
       Begin (Some 3) 1 65536, End (Some 0)] started_world = False
 \<and> undisturbed esp8266 0
      [Write (Some 0) (Some [0xE9]), GetStatus (Some 0) True, Cancel (Some 1), End (Some 2),
       Begin (Some 3) 1 65536, IsInProgress] started_world
 \<and> (\<exists>w2. api_run esp8266
            [Write (Some 0) (Some [0xE9]), GetStatus (Some 0) True, Cancel (Some 1),
             End (Some 2), Begin (Some 3) 1 65536, IsInProgress] started_world = Some w2
        \<and> flash w2 (cfg_addr esp8266 + 7) = 2
        \<and> current_ota w2 = Some 0
        \<and> rboot_ota_begin esp8266 (Some 1) 1 65536 w2 = (OTA_ERR_IN_PROGRESS, w2)
        \<and> rboot_ota_begin esp8266 (Some 1) 5 65536 w2 = (OTA_ERR_INVALID_ARGS, w2)
        \<and> rboot_ota_begin esp8266 None 1 65536 w2 = (OTA_ERR_INVALID_ARGS, w2))"
proof -
  let ?cs = "[Write (Some 0) (Some [0xE9]), GetStatus (Some 0) True, Cancel (Some 1),
              End (Some 2), Begin (Some 3) 1 65536, IsInProgress]"
  note ev = started_world_eq eval_simps rboot_ota_cancel_def rboot_ota_end_def
            rboot_ota_begin_def rboot_ota_is_in_progress_def
  have b: "rboot_ota_begin esp8266 (Some 0) 0 65536 idle_world = (OTA_OK, started_world)"
    by (simp add: begin_idle started_world_eq)
  have n: "undisturbed esp8266 0
             [Write (Some 0) (Some [0xE9]), GetStatus (Some 0) True, Cancel (Some 1),
              End (Some 2), Begin (Some 3) 1 65536, End (Some 0)] started_world = False"
    by (simp add: ev)
  have u: "undisturbed esp8266 0 ?cs started_world"
    by (simp add: ev)
  obtain w2 where r: "api_run esp8266 ?cs started_world = Some w2"
    and f: "flash w2 (cfg_addr esp8266 + 7) = 2"
    by (simp add: ev)
  note T = C5_second_begin_in_progress [OF b u r]
  have m: "unat (1 :: u8) < MAX_ROMS esp8266" "MAX_ROMS esp8266 \<le> unat (5 :: u8)"
    by (simp_all add: esp8266_simps)
  have t1: "current_ota w2 = Some 0" using T by blast
  have t2: "rboot_ota_begin esp8266 (Some 1) 1 65536 w2 = (OTA_ERR_IN_PROGRESS, w2)"
    using T [of "Some 1" 1 65536] m f by simp
  have t3: "rboot_ota_begin esp8266 (Some 1) 5 65536 w2 = (OTA_ERR_INVALID_ARGS, w2)"
    using T [of "Some 1" 5 65536] m by simp
  have t4: "rboot_ota_begin esp8266 None 1 65536 w2 = (OTA_ERR_INVALID_ARGS, w2)"
    using T [of None 1 65536] by simp
  show ?thesis using b n u r f t1 t2 t3 t4 by simp
qed

text \<open>
  C5 as stated fails: while the session of handle 0 is live, a further
  \<^verbatim>\<open>rboot_ota_begin\<close> for slot 5 does not fail with \<open>OTA_ERR_IN_PROGRESS\<close> but with
  \<open>OTA_ERR_INVALID_ARGS\<close>.
\<close>

theorem C5_second_begin_invalid_args_counterexample:
  "fst (rboot_ota_begin esp8266 (Some 0) 0 65536 idle_world) = OTA_OK
 \<and> fst (rboot_ota_begin esp8266 (Some 1) 5 65536
          (snd (rboot_ota_begin esp8266 (Some 0) 0 65536 idle_world))) = OTA_ERR_INVALID_ARGS
 \<and> OTA_ERR_INVALID_ARGS \<noteq> OTA_ERR_IN_PROGRESS"
  by (simp add: begin_idle) (simp add: rboot_ota_begin_def esp8266_simps)

text \<open>
  C6. \<^verbatim>\<open>rboot_set_boot_rom\<close> with a slot at or above the stored count returns 0, its
  failure value, and leaves the whole machine as it was: the flash is unchanged and no
  erase or write was issued.
\<close>

theorem C6_set_boot_rom_rejects_slot:
  assumes "flash w (cfg_addr P + 7) \<le> rom"
  shows "rboot_set_boot_rom P rom w = (0, w)"
  using assms by (rule set_boot_rom_bad_slot)

theorem C6_set_boot_rom_rejects_slot_witness:
  "flash idle_world (cfg_addr esp8266 + 7) \<le> 5
 \<and> rboot_set_boot_rom esp8266 5 idle_world = (0, idle_world)"
proof -
  have h: "flash idle_world (cfg_addr esp8266 + 7) \<le> 5"
    by (simp add: idle_world_simps sample_flash_def esp8266_simps)
  show ?thesis using h C6_set_boot_rom_rejects_slot [OF h] by simp
qed

text \<open>
  C7. \<^verbatim>\<open>rboot_get_current_rom\<close> returns the stored \<open>current_rom\<close> and, when the read
  fails, slot 0. The code never looks at the status of the read: when it fails the
  result is whatever the uninitialised local held, here 7.
\<close>

theorem C7_get_current_rom_after_failed_read:
  "read_fault (idle_world\<lparr>read_fault := (\<lambda>a. a = 0x1000)\<rparr>) (cfg_addr esp8266)
 \<and> rboot_get_current_rom esp8266 (replicate 24 7)
      (idle_world\<lparr>read_fault := (\<lambda>a. a = 0x1000)\<rparr>) = 7"
  by (simp add: get_current_rom_eq esp8266_simps cfg_current_rom_def)

text \<open>
  C8. With a positive size declared at begin, the progress reported is
  \<open>written_size * 100 / max_size\<close>. The code never stores \<^verbatim>\<open>max_size\<close>: after a begin
  that declares 65536 bytes \<open>total_size\<close> is 0, and after 2048 bytes are written the
  progress reported is 0, not 3.
\<close>

theorem C8_progress_ignores_declared_size:
  "fst (rboot_ota_begin esp8266 (Some 0) 0 65536 idle_world) = OTA_OK
 \<and> total_size (handles started_world 0) = 0
 \<and> map_option (\<lambda>r. (fst r, rboot_ota_get_status (Some 0) True (snd r),
                      written_size (handles (snd r) 0)))
      (rboot_ota_write esp8266 (Some 0) (Some (replicate 2048 0xE9)) started_world)
    = Some (OTA_OK, (OTA_STATE_WRITING, Some 0), 2048)
 \<and> (2048 * 100 :: u32) div 65536 = 3"
  by (simp add: begin_idle) (simp add: started_world_eq eval_simps rboot_ota_get_status_def)

text \<open>
  C9. Once the factory-reset flag is set, \<^verbatim>\<open>check_factory_reset\<close> returns true; after
  \<^verbatim>\<open>perform_factory_reset\<close> has run to the point before the restart it returns false,
  and, the erase and the write of the configuration sector having succeeded, every
  byte of the sector is the byte of the default configuration for the flash size
  estimated from the identity byte, followed by erased bytes.
\<close>

theorem C9_factory_reset_restores_defaults:
  assumes "enable \<noteq> 0"
    and "BOOT_CONFIG_SECTOR P * SECTOR_SIZE P + SECTOR_SIZE P \<le> 2 ^ 32"
    and "length (default_config P (estimated_flashsize w)) \<le> SECTOR_SIZE P"
    and "\<not> erase_fault w (BOOT_CONFIG_SECTOR P)" and "\<not> write_fault w (cfg_addr P)"
    and "i < SECTOR_SIZE P"
  shows "check_factory_reset P (rboot_set_factory_reset P enable w) = 1
       \<and> check_factory_reset P (perform_factory_reset P (rboot_set_factory_reset P enable w)) = 0
       \<and> flash (perform_factory_reset P (rboot_set_factory_reset P enable w))
            (cfg_addr P + of_nat i)
          = (if i < length (default_config P (estimated_flashsize w))
             then default_config P (estimated_flashsize w) ! i else 0xFF)"
proof -
  let ?w1 = "rboot_set_factory_reset P enable w"
  have e: "estimated_flashsize ?w1 = estimated_flashsize w"
    by (simp add: estimated_flashsize_def rboot_set_factory_reset_def rtc_write_def)
  have u: "unat (cfg_addr P + of_nat i) div SECTOR_SIZE P = BOOT_CONFIG_SECTOR P"
    using assms(6) by (simp add: unat_cfg_addr [OF assms(2) assms(6)])
  have i32: "i < 2 ^ 32" using assms(2) assms(6) by simp
  have f: "erase_fault ?w1 = erase_fault w" "write_fault ?w1 = write_fault w"
    by (simp_all add: rboot_set_factory_reset_def rtc_write_def)
  have c1: "check_factory_reset P ?w1 = 1"
    using assms(1)
    by (simp add: check_factory_reset_def rboot_set_factory_reset_def rtc_write_def
                  rtc_read_def)
  have c2: "check_factory_reset P (perform_factory_reset P ?w1) = 0"
    by (simp add: check_factory_reset_def perform_factory_reset_eq
                  rboot_set_factory_reset_def [of P 0] rtc_write_def rtc_read_def
                  FACTORY_RESET_MAGIC_def)
  have c3: "flash (perform_factory_reset P ?w1) (cfg_addr P + of_nat i)
          = (if i < length (default_config P (estimated_flashsize w))
             then default_config P (estimated_flashsize w) ! i else 0xFF)"
    using assms(4) assms(5) u
    by (simp add: perform_factory_reset_eq e f SPIEraseSector_def SPIWrite_def Let_def
                  rboot_set_factory_reset_def [of P 0] rtc_write_def
                  unat_of_nat_u32 [OF i32] erased_AND)
  show ?thesis using c1 c2 c3 by simp
qed

theorem C9_factory_reset_restores_defaults_witness:
  "(1 :: u8) \<noteq> 0
 \<and> BOOT_CONFIG_SECTOR esp8266 * SECTOR_SIZE esp8266 + SECTOR_SIZE esp8266 \<le> 2 ^ 32
 \<and> length (default_config esp8266 (estimated_flashsize custom_world)) \<le> SECTOR_SIZE esp8266
 \<and> \<not> erase_fault custom_world (BOOT_CONFIG_SECTOR esp8266)
 \<and> \<not> write_fault custom_world (cfg_addr esp8266)
 \<and> (6 :: nat) < SECTOR_SIZE esp8266 \<and> (14 :: nat) < SECTOR_SIZE esp8266
 \<and> (100 :: nat) < SECTOR_SIZE esp8266
 \<and> estimated_flashsize custom_world = 0x200000
 \<and> check_factory_reset esp8266 custom_world = 0
 \<and> check_factory_reset esp8266 (rboot_set_factory_reset esp8266 1 custom_world) = 1
 \<and> check_factory_reset esp8266
      (perform_factory_reset esp8266 (rboot_set_factory_reset esp8266 1 custom_world)) = 0
 \<and> flash custom_world (cfg_addr esp8266 + 6) = 1
 \<and> flash (perform_factory_reset esp8266 (rboot_set_factory_reset esp8266 1 custom_world))
      (cfg_addr esp8266 + 6) = 0
 \<and> flash custom_world (cfg_addr esp8266 + 14) = 0x08
 \<and> flash (perform_factory_reset esp8266 (rboot_set_factory_reset esp8266 1 custom_world))
      (cfg_addr esp8266 + 14) = 0x10
 \<and> flash custom_world (cfg_addr esp8266 + 100) = 0
 \<and> flash (perform_factory_reset esp8266 (rboot_set_factory_reset esp8266 1 custom_world))
      (cfg_addr esp8266 + 100) = 0xFF"
proof -
  have v: "estimated_flashsize custom_world = 0x200000"
    by (simp add: estimated_flashsize_def custom_world_def idle_world_simps)
  have h1: "(1 :: u8) \<noteq> 0" by simp
  have h2: "BOOT_CONFIG_SECTOR esp8266 * SECTOR_SIZE esp8266 + SECTOR_SIZE esp8266 \<le> 2 ^ 32"
    by (simp add: esp8266_simps)
  have h3: "length (default_config esp8266 (estimated_flashsize custom_world))
              \<le> SECTOR_SIZE esp8266"
    by (simp add: esp8266_simps sample_default_config_def)
  have h4: "\<not> erase_fault custom_world (BOOT_CONFIG_SECTOR esp8266)"
    by (simp add: custom_world_def idle_world_simps)
  have h5: "\<not> write_fault custom_world (cfg_addr esp8266)"
    by (simp add: custom_world_def idle_world_simps)
  have k: "(6 :: nat) < SECTOR_SIZE esp8266" "(14 :: nat) < SECTOR_SIZE esp8266"
    "(100 :: nat) < SECTOR_SIZE esp8266"
    by (simp_all add: esp8266_simps)
  have before: "check_factory_reset esp8266 custom_world = 0"
    "flash custom_world (cfg_addr esp8266 + 6) = 1"
    "flash custom_world (cfg_addr esp8266 + 14) = 0x08"
    "flash custom_world (cfg_addr esp8266 + 100) = 0"
    by (simp_all add: check_factory_reset_def rtc_read_def FACTORY_RESET_MAGIC_def
                      custom_world_def idle_world_def sample_flash_def esp8266_simps)
  note T = C9_factory_reset_restores_defaults [OF h1 h2 h3 h4 h5]
  have after: "check_factory_reset esp8266 (rboot_set_factory_reset esp8266 1 custom_world) = 1"
    "check_factory_reset esp8266
       (perform_factory_reset esp8266 (rboot_set_factory_reset esp8266 1 custom_world)) = 0"
    "flash (perform_factory_reset esp8266 (rboot_set_factory_reset esp8266 1 custom_world))
       (cfg_addr esp8266 + 6) = 0"
    "flash (perform_factory_reset esp8266 (rboot_set_factory_reset esp8266 1 custom_world))
       (cfg_addr esp8266 + 14) = 0x10"
    "flash (perform_factory_reset esp8266 (rboot_set_factory_reset esp8266 1 custom_world))
       (cfg_addr esp8266 + 100) = 0xFF"
    using T [OF k(1)] T [OF k(2)] T [OF k(3)]
    by (simp_all add: v esp8266_simps sample_default_config_def)
  show ?thesis
    using v h1 h2 h3 h4 h5 k before after by simp
qed

text \<open>
  C10. When verification passes, \<^verbatim>\<open>rboot_ota_end\<close> returns \<open>OTA_OK\<close>, leaves the handle
  in \<open>COMPLETE\<close> and releases the session whatever \<^verbatim>\<open>rboot_set_boot_rom\<close> returns: the
  flash afterwards is the one that call left. Where the call fails before it writes
  (the configuration cannot be read, the slot is not below the count, or the sector
  cannot be erased) the flash, and with it the persisted \<open>current_rom\<close>, is as before.
\<close>

theorem C10_end_ignores_commit_status:
  assumes "state (handles w p) = OTA_STATE_WRITING"
    and "\<not> read_fault w (target_addr (handles w p))"
    and "flash w (target_addr (handles w p)) = 0xE9"
  shows "fst (rboot_ota_end P (Some p) w) = OTA_OK
       \<and> state (handles (snd (rboot_ota_end P (Some p) w)) p) = OTA_STATE_COMPLETE
       \<and> current_ota (snd (rboot_ota_end P (Some p) w)) = None
       \<and> flash (snd (rboot_ota_end P (Some p) w))
           = flash (snd (rboot_set_boot_rom P (target_rom (handles w p)) w))
       \<and> (read_fault w (cfg_addr P) \<or> flash w (cfg_addr P + 7) \<le> target_rom (handles w p)
            \<or> erase_fault w (BOOT_CONFIG_SECTOR P)
          \<longrightarrow> fst (rboot_set_boot_rom P (target_rom (handles w p)) w) = 0
              \<and> flash (snd (rboot_ota_end P (Some p) w)) = flash w)"
proof -
  let ?rom = "target_rom (handles w p)"
  have e: "rboot_ota_end P (Some p) w =
             (OTA_OK,
              (snd (rboot_set_boot_rom P ?rom w))
                \<lparr>handles := (handles w)(p := handles w p\<lparr>state := OTA_STATE_COMPLETE\<rparr>),
                 current_ota := None\<rparr>)"
    using assms
    by (simp add: rboot_ota_end_def Let_def verify_image_eq put_handle_def
                  set_boot_rom_handles_update)
  have f: "read_fault w (cfg_addr P) \<or> flash w (cfg_addr P + 7) \<le> ?rom
             \<or> erase_fault w (BOOT_CONFIG_SECTOR P)
           \<Longrightarrow> fst (rboot_set_boot_rom P ?rom w) = 0
             \<and> flash (snd (rboot_set_boot_rom P ?rom w)) = flash w"
    using set_boot_rom_bad_slot [of w P ?rom] set_boot_rom_read_fault [of w P ?rom]
          set_boot_rom_erase_fault [of w P ?rom]
    by auto
  show ?thesis
    using f by (simp add: e)
qed

theorem C10_end_ignores_commit_status_witness:
  "state (handles stuck_world 0) = OTA_STATE_WRITING
 \<and> \<not> read_fault stuck_world (target_addr (handles stuck_world 0))
 \<and> flash stuck_world (target_addr (handles stuck_world 0)) = 0xE9
 \<and> target_rom (handles stuck_world 0) = 1
 \<and> fst (rboot_set_boot_rom esp8266 1 stuck_world) = 0
 \<and> fst (rboot_ota_end esp8266 (Some 0) stuck_world) = OTA_OK
 \<and> state (handles (snd (rboot_ota_end esp8266 (Some 0) stuck_world)) 0) = OTA_STATE_COMPLETE
 \<and> rboot_get_current_rom esp8266 [] (snd (rboot_ota_end esp8266 (Some 0) stuck_world)) = 0"
proof -
  have h: "state (handles stuck_world 0) = OTA_STATE_WRITING"
    by (simp add: stuck_world_def written_world_def writing_world_def put_handle_def)
  have r: "\<not> read_fault stuck_world (target_addr (handles stuck_world 0))"
    by (simp add: stuck_world_def written_world_def writing_world_def put_handle_def
                  idle_world_def)
  have m: "flash stuck_world (target_addr (handles stuck_world 0)) = 0xE9"
    by (simp add: stuck_world_def written_world_def writing_world_def put_handle_def)
  have t: "target_rom (handles stuck_world 0) = 1"
    by (simp add: stuck_world_def written_world_def writing_world_def put_handle_def)
  have c: "erase_fault stuck_world (BOOT_CONFIG_SECTOR esp8266)"
    by (simp add: stuck_world_def esp8266_simps)
  have g: "\<not> read_fault stuck_world (cfg_addr esp8266)"
    "flash stuck_world (cfg_addr esp8266 + 6) = 0"
    by (simp_all add: stuck_world_def written_world_def writing_world_def put_handle_def
                      idle_world_def sample_flash_def esp8266_simps)
  have q: "read_fault (snd (rboot_ota_end esp8266 (Some 0) stuck_world)) = read_fault stuck_world"
    by (simp add: rboot_ota_end_def Let_def set_boot_rom_frame put_handle_def)
  note T = C10_end_ignores_commit_status [OF h r m, of esp8266]
  have k: "fst (rboot_ota_end esp8266 (Some 0) stuck_world) = OTA_OK
         \<and> state (handles (snd (rboot_ota_end esp8266 (Some 0) stuck_world)) 0)
             = OTA_STATE_COMPLETE
         \<and> fst (rboot_set_boot_rom esp8266 1 stuck_world) = 0
         \<and> flash (snd (rboot_ota_end esp8266 (Some 0) stuck_world)) = flash stuck_world"
    using T c unfolding t by blast
  show ?thesis
    using h r m t g q k by (simp add: get_current_rom_eq)
qed

end
